theory Spec2Isabelle
  imports Complex_Main
begin

section \<open>Numbers and library functions\<close>

text \<open>
  A finite binary64 float is the real number it denotes; \<^verbatim>\<open>-np.inf\<close>, the value written
  over excluded similarities, is the score \<open>NegInf\<close>, below every finite score as in the
  order of floats.
\<close>

type_synonym vec = "real list"

datatype score = NegInf | Fin real

instantiation score :: linorder
begin

fun less_eq_score :: "score \<Rightarrow> score \<Rightarrow> bool" where
  "less_eq_score NegInf b = True"
| "less_eq_score (Fin x) NegInf = False"
| "less_eq_score (Fin x) (Fin y) = (x \<le> y)"

definition less_score :: "score \<Rightarrow> score \<Rightarrow> bool" where
  "less_score a b = (a \<le> b \<and> \<not> b \<le> a)"

instance
proof
  fix x y z :: score
  show "(x < y) = (x \<le> y \<and> \<not> y \<le> x)"
    by (simp add: less_score_def)
  show "x \<le> x"
    by (cases x) simp_all
  show "x \<le> y \<Longrightarrow> y \<le> z \<Longrightarrow> x \<le> z"
    by (cases x; cases y; cases z) simp_all
  show "x \<le> y \<Longrightarrow> y \<le> x \<Longrightarrow> x = y"
    by (cases x; cases y) simp_all
  show "x \<le> y \<or> y \<le> x"
    by (cases x; cases y) auto
qed

end

text \<open>
  The recommender calls library functions whose results the source does not fix: the
  Unicode case mapping \<^verbatim>\<open>str.lower\<close>, \<^verbatim>\<open>SequenceMatcher(None, a, b).ratio()\<close>, the
  binary64 product and sum (rounded by the hardware), and \<^verbatim>\<open>np.argsort\<close> with its default
  sort, which is not stable. They are the fields of a record that every function of the
  recommender takes; a property proved for every such record holds for the functions the
  program really calls.
\<close>

record runtime =
  str_lower :: "string \<Rightarrow> string"
  sm_ratio :: "string \<Rightarrow> string \<Rightarrow> real"
  fl_mul :: "real \<Rightarrow> real \<Rightarrow> real"
  fl_add :: "real \<Rightarrow> real \<Rightarrow> real"
  np_argsort :: "score list \<Rightarrow> nat list"

definition valid_argsort :: "(score list \<Rightarrow> nat list) \<Rightarrow> bool" where
  \<comment> \<open>What numpy documents of \<^verbatim>\<open>argsort\<close> for every kind of sort: the result lists each
      index once, in ascending order of the values. The order of equal values is left
      open.\<close>
  "valid_argsort f =
     (\<forall>sims. length (f sims) = length sims \<and> set (f sims) = {0..<length sims} \<and>
             sorted (map (\<lambda>i. sims ! i) (f sims)))"

definition binary64_facts :: "runtime \<Rightarrow> bool" where
  \<comment> \<open>Facts of binary64 arithmetic with rounding to nearest: sums and products are
      monotone, \<^verbatim>\<open>0*0.7 + 0*0.3\<close> evaluates to \<^verbatim>\<open>0.0\<close> and \<^verbatim>\<open>1*0.7 + 1*0.3\<close> to
      \<^verbatim>\<open>1.0\<close>.\<close>
  "binary64_facts rt =
     ((\<forall>x x' y y'. x \<le> x' \<and> y \<le> y' \<longrightarrow> fl_add rt x y \<le> fl_add rt x' y') \<and>
      (\<forall>x x' c. x \<le> x' \<and> 0 \<le> c \<longrightarrow> fl_mul rt x c \<le> fl_mul rt x' c) \<and>
      fl_add rt (fl_mul rt 0 0.7) (fl_mul rt 0 0.3) = 0 \<and>
      fl_add rt (fl_mul rt 1 0.7) (fl_mul rt 1 0.3) = 1)"

text \<open>
  The vector arithmetic of numpy, for an arbitrary type of array elements (so that
  \<^verbatim>\<open>nan\<close> and \<^verbatim>\<open>inf\<close> are among them): \<^verbatim>\<open>np.linalg.norm\<close>, the test \<^verbatim>\<open>norm == 0\<close>, and the
  elementwise quotient and product of an element by a scalar, all as the platform
  computes them.
\<close>

record 'a np_ops =
  np_norm :: "'a list \<Rightarrow> 'a"
  is_zero :: "'a \<Rightarrow> bool"
  np_div :: "'a \<Rightarrow> 'a \<Rightarrow> 'a"
  np_mul :: "'a \<Rightarrow> 'a \<Rightarrow> 'a"

section \<open>EmbeddingCombiner (src/embeddings/embedding_combiner.py)\<close>

record 'a combiner =
  text_weight :: 'a
  features_weight :: 'a
  normalize :: bool

definition normalize_vector :: "'a np_ops \<Rightarrow> 'a list \<Rightarrow> 'a list" where
  \<comment> \<open>\<^verbatim>\<open>_normalize_vector\<close>: the guard returns the vector unchanged when the computed
      norm compares equal to 0.\<close>
  "normalize_vector ops vector =
     (let norm = np_norm ops vector
      in if is_zero ops norm then vector else map (\<lambda>x. np_div ops x norm) vector)"

definition weighted_concat :: "'a np_ops \<Rightarrow> 'a combiner \<Rightarrow> 'a list \<Rightarrow> 'a list \<Rightarrow> 'a list" where
  \<comment> \<open>lines 72-82: per-input normalisation, weights, concatenation (text first).\<close>
  "weighted_concat ops c text_emb feature_emb =
     (let t = (if normalize c then normalize_vector ops text_emb else text_emb);
          f = (if normalize c then normalize_vector ops feature_emb else feature_emb);
          text_weighted = map (\<lambda>x. np_mul ops x (text_weight c)) t;
          features_weighted = map (\<lambda>x. np_mul ops x (features_weight c)) f
      in text_weighted @ features_weighted)"

definition combine_row ::
  "'a np_ops \<Rightarrow> 'a combiner \<Rightarrow> 'a list option \<Rightarrow> 'a list option \<Rightarrow> 'a list option" where
  \<comment> \<open>The body of the loop of \<^verbatim>\<open>combine_embeddings\<close> for one row; \<open>None\<close> is Python's
      \<^verbatim>\<open>None\<close>.\<close>
  "combine_row ops c text_emb feature_emb =
     (case text_emb of
        None \<Rightarrow> None
      | Some t \<Rightarrow>
          (case feature_emb of
             None \<Rightarrow> None
           | Some f \<Rightarrow>
               (let combined = weighted_concat ops c t f
                in Some (if normalize c then normalize_vector ops combined else combined))))"

definition combine_embeddings ::
  "'a np_ops \<Rightarrow> 'a combiner \<Rightarrow> bool \<Rightarrow> ('a list option \<times> 'a list option) list
     \<Rightarrow> 'a list option list option" where
  \<comment> \<open>The data frame is the list of its rows, each the pair of its \<^verbatim>\<open>text_embedding\<close> and
      \<^verbatim>\<open>feature_embedding\<close> cells; \<open>has_columns\<close> says that both columns exist. The
      result is the new \<^verbatim>\<open>combined_embedding\<close> column, or \<open>None\<close> when the frame is
      returned without that column (empty frame, or a column is absent).\<close>
  "combine_embeddings ops c has_columns df =
     (if df = [] then None
      else if \<not> has_columns then None
      else Some (map (\<lambda>(text_emb, feature_emb). combine_row ops c text_emb feature_emb) df))"

section \<open>SimilarityEngine (src/recommender/engine/similarity_engine.py)\<close>

datatype error = ValueError | TypeError

datatype metric = Cosine | Euclidean | Dot

definition similarity_engine :: "string \<Rightarrow> error + metric" where
  \<comment> \<open>\<^verbatim>\<open>__init__\<close>: an unsupported metric name raises at construction.\<close>
  "similarity_engine name =
     (if name = ''cosine'' then Inr Cosine
      else if name = ''euclidean'' then Inr Euclidean
      else if name = ''dot'' then Inr Dot
      else Inl ValueError)"

text \<open>
  A two-dimensional array is the list of its rows. The similarity kernels are modelled by
  their documented formulas in exact arithmetic: scikit-learn's \<^verbatim>\<open>cosine_similarity\<close>
  (rows are L2-normalised, a zero row stays zero, then the dot products are taken) and
  \<^verbatim>\<open>euclidean_distances\<close> (\<open>sqrt (x\<cdot>x - 2 x\<cdot>y + y\<cdot>y)\<close>, clipped at 0), and numpy's
  \<^verbatim>\<open>np.dot\<close>. The values the program computes differ from them by rounding; the
  properties below do not depend on the values, except at inputs on which the binary64
  computation is exact. Their input validation is the raise of \<open>ValueError\<close>:
  scikit-learn refuses an array with no row or no column and arrays whose column counts
  differ, \<^verbatim>\<open>np.dot\<close> refuses operands whose shapes do not align.
\<close>

definition dot :: "vec \<Rightarrow> vec \<Rightarrow> real" where
  "dot a b = sum_list (map (\<lambda>(x, y). x * y) (zip a b))"

definition l2_norm :: "vec \<Rightarrow> real" where
  "l2_norm v = sqrt (sum_list (map (\<lambda>x. x * x) v))"

definition sk_normalize :: "vec \<Rightarrow> vec" where
  "sk_normalize v = (let n = l2_norm v in map (\<lambda>x. x / (if n = 0 then 1 else n)) v)"

definition sk_check :: "vec list \<Rightarrow> vec list \<Rightarrow> bool" where
  "sk_check X Y =
     (X \<noteq> [] \<and> Y \<noteq> [] \<and> 0 < length (hd X) \<and>
      list_all (\<lambda>r. length r = length (hd X)) (X @ Y))"

definition cosine_similarity :: "vec list \<Rightarrow> vec list \<Rightarrow> error + real list list" where
  "cosine_similarity X Y =
     (if sk_check X Y
      then Inr (map (\<lambda>x. map (\<lambda>y. dot (sk_normalize x) (sk_normalize y)) Y) X)
      else Inl ValueError)"

definition euclidean_distances :: "vec list \<Rightarrow> vec list \<Rightarrow> error + real list list" where
  "euclidean_distances X Y =
     (if sk_check X Y
      then Inr (map (\<lambda>x. map (\<lambda>y. sqrt (max 0 (dot x x - 2 * dot x y + dot y y))) Y) X)
      else Inl ValueError)"

definition np_dot :: "vec list \<Rightarrow> vec list \<Rightarrow> error + real list list" where
  \<comment> \<open>\<^verbatim>\<open>np.dot(A, B.T)\<close> for two-dimensional \<open>A\<close> and \<open>B\<close>, given by their rows.\<close>
  "np_dot A B =
     (if list_all (\<lambda>a. list_all (\<lambda>b. length a = length b) B) A
      then Inr (map (\<lambda>a. map (\<lambda>b. dot a b) B) A)
      else Inl ValueError)"

definition similarities :: "metric \<Rightarrow> vec \<Rightarrow> vec list \<Rightarrow> error + real list" where
  \<comment> \<open>lines 50-62 of \<^verbatim>\<open>find_similar\<close>; the query is a 1-D array, reshaped to one row.\<close>
  "similarities m query_embedding embeddings_matrix =
     (case m of
        Cosine \<Rightarrow>
          (case cosine_similarity [query_embedding] embeddings_matrix of
             Inl e \<Rightarrow> Inl e
           | Inr K \<Rightarrow> Inr (hd K))
      | Euclidean \<Rightarrow>
          (case euclidean_distances [query_embedding] embeddings_matrix of
             Inl e \<Rightarrow> Inl e
           | Inr D \<Rightarrow> Inr (map (\<lambda>d. 1 / (1 + d)) (hd D)))
      | Dot \<Rightarrow>
          (case np_dot embeddings_matrix [query_embedding] of
             Inl e \<Rightarrow> Inl e
           | Inr P \<Rightarrow> Inr (concat P)))"

fun exclude :: "int list \<Rightarrow> score list \<Rightarrow> score list" where
  \<comment> \<open>lines 65-68; an absent or empty \<^verbatim>\<open>exclude_indices\<close> is the empty list.\<close>
  "exclude [] sims = sims"
| "exclude (idx # rest) sims =
     exclude rest
       (if 0 \<le> idx \<and> idx < int (length sims) then sims[nat idx := NegInf] else sims)"

definition py_prefix :: "int \<Rightarrow> 'a list \<Rightarrow> 'a list" where
  \<comment> \<open>The slice \<^verbatim>\<open>xs[:k]\<close>; a negative \<open>k\<close> counts from the end.\<close>
  "py_prefix k xs = (if 0 \<le> k then take (nat k) xs else take (length xs - nat (- k)) xs)"

definition top_k :: "runtime \<Rightarrow> int \<Rightarrow> score list \<Rightarrow> (nat \<times> score) list" where
  \<comment> \<open>lines 70-77: \<^verbatim>\<open>np.argsort(similarities)[::-1][:k]\<close>, then the pairs.\<close>
  "top_k rt k sims =
     (let top_k_indices = py_prefix k (rev (np_argsort rt sims))
      in map (\<lambda>idx. (idx, sims ! idx)) top_k_indices)"

definition find_similar ::
  "runtime \<Rightarrow> metric \<Rightarrow> vec \<Rightarrow> vec list \<Rightarrow> int \<Rightarrow> int list
     \<Rightarrow> error + (nat \<times> score) list" where
  "find_similar rt m query_embedding embeddings_matrix k exclude_indices =
     (case similarities m query_embedding embeddings_matrix of
        Inl e \<Rightarrow> Inl e
      | Inr sims \<Rightarrow> Inr (top_k rt k (exclude exclude_indices (map Fin sims))))"

section \<open>MusicRecommender (src/recommender/engine/recommender.py)\<close>

text \<open>
  One row of the data frame loaded by \<^verbatim>\<open>load_data\<close>. The four text columns hold strings;
  an embedding cell is a vector or \<^verbatim>\<open>None\<close>. The frame is the list of its rows, and the
  row label of a row is its position.
\<close>

record track =
  track_id :: string
  track_name :: string
  artist_name :: string
  album_name :: string
  combined_embedding :: "vec option"
  text_embedding :: "vec option"
  feature_embedding :: "vec option"

text \<open>
  The configuration dictionary, read with the defaults of the \<^verbatim>\<open>config.get\<close> calls. The
  default threshold is the binary64 value of the literal \<^verbatim>\<open>0.8\<close>.
\<close>

record rec_config =
  exclude_same_artist :: bool
  min_similarity_threshold :: real
  fuzzy_matching :: bool
  fuzzy_threshold :: real

definition default_config :: rec_config where
  "default_config =
     \<lparr>exclude_same_artist = False, min_similarity_threshold = 0,
      fuzzy_matching = True, fuzzy_threshold = 3602879701896397 / 4503599627370496\<rparr>"

definition truthy :: "string option \<Rightarrow> bool" where
  \<comment> \<open>\<^verbatim>\<open>if s:\<close> for an \<^verbatim>\<open>Optional[str]\<close>: neither \<^verbatim>\<open>None\<close> nor the empty string.\<close>
  "truthy s = (case s of None \<Rightarrow> False | Some t \<Rightarrow> t \<noteq> [])"

definition combined_score :: "runtime \<Rightarrow> string \<Rightarrow> string option \<Rightarrow> track \<Rightarrow> real" where
  \<comment> \<open>lines 245-263; \<open>fl_mul rt x 0.7\<close> is the binary64 product of \<open>x\<close> and the literal
      \<^verbatim>\<open>0.7\<close>.\<close>
  "combined_score rt name artist row =
     (let name_similarity = sm_ratio rt (str_lower rt name) (str_lower rt (track_name row))
      in if truthy artist
         then (let artist_similarity =
                     sm_ratio rt (str_lower rt (the artist)) (str_lower rt (artist_name row))
               in fl_add rt (fl_mul rt name_similarity 0.7) (fl_mul rt artist_similarity 0.3))
         else name_similarity)"

fun fuzzy_scan ::
  "runtime \<Rightarrow> real \<Rightarrow> string \<Rightarrow> string option \<Rightarrow> track list
     \<Rightarrow> track option \<times> real \<Rightarrow> track option \<times> real" where
  \<comment> \<open>The loop of \<^verbatim>\<open>_fuzzy_search\<close> over the rows, on the pair
      \<open>(best_match, best_score)\<close>.\<close>
  "fuzzy_scan rt threshold name artist [] best = best"
| "fuzzy_scan rt threshold name artist (row # rows) (best_match, best_score) =
     (let score = combined_score rt name artist row
      in fuzzy_scan rt threshold name artist rows
           (if score > best_score \<and> score \<ge> threshold
            then (Some row, score) else (best_match, best_score)))"

definition fuzzy_search ::
  "runtime \<Rightarrow> rec_config \<Rightarrow> track list \<Rightarrow> string \<Rightarrow> string option \<Rightarrow> track list option" where
  "fuzzy_search rt config df name artist =
     (case fst (fuzzy_scan rt (fuzzy_threshold config) name artist df (None, 0)) of
        None \<Rightarrow> None
      | Some best_match \<Rightarrow> Some [best_match])"

definition name_matches :: "runtime \<Rightarrow> track list \<Rightarrow> string \<Rightarrow> track list" where
  \<comment> \<open>line 204.\<close>
  "name_matches rt df name =
     filter (\<lambda>r. str_lower rt (track_name r) = str_lower rt name) df"

definition narrowed :: "runtime \<Rightarrow> track list \<Rightarrow> string \<Rightarrow> string option \<Rightarrow> track list" where
  \<comment> \<open>lines 204-209: the exact name matches, narrowed by artist when there are several
      and an artist is given.\<close>
  "narrowed rt df name artist =
     (let result = name_matches rt df name
      in if length result > 1 \<and> truthy artist
         then filter (\<lambda>r. str_lower rt (artist_name r) = str_lower rt (the artist)) result
         else result)"

definition find_track ::
  "runtime \<Rightarrow> rec_config \<Rightarrow> track list
     \<Rightarrow> string option \<Rightarrow> string option \<Rightarrow> string option \<Rightarrow> track list option" where
  \<comment> \<open>\<^verbatim>\<open>_find_track\<close>; the returned frame is the list of its rows, \<open>None\<close> is \<^verbatim>\<open>None\<close>.\<close>
  "find_track rt config df tid tname artist =
     (let by_id = (if truthy tid then filter (\<lambda>r. track_id r = the tid) df else [])
      in if by_id \<noteq> [] then Some by_id
         else if truthy tname then
           (let result = narrowed rt df (the tname) artist
            in if result \<noteq> [] then Some (take 1 result)
               else if fuzzy_matching config
                 then fuzzy_search rt config df (the tname) artist
                 else None)
         else None)"

text \<open>
  Building the query vector and the matrix. A cell that is \<^verbatim>\<open>None\<close> gives a row of
  shape \<open>(1, 1)\<close> that holds \<^verbatim>\<open>None\<close>; \<^verbatim>\<open>np.vstack\<close> raises \<open>ValueError\<close> when the rows
  differ in width or there is no row. A matrix that holds \<^verbatim>\<open>None\<close>, or a query that is
  \<^verbatim>\<open>np.array(None)\<close>, is refused by the similarity computation: scikit-learn's input
  check raises \<open>ValueError\<close>, the object product of \<^verbatim>\<open>np.dot\<close> raises \<open>TypeError\<close>.
\<close>

definition vstack :: "vec option list \<Rightarrow> error + real option list list" where
  "vstack cells =
     (let rows = map (\<lambda>c. case c of None \<Rightarrow> [None] | Some v \<Rightarrow> map Some v) cells
      in if rows = [] then Inl ValueError
         else if list_all (\<lambda>r. length r = length (hd rows)) rows then Inr rows
         else Inl ValueError)"

definition find_similar_cells ::
  "runtime \<Rightarrow> metric \<Rightarrow> vec option \<Rightarrow> real option list list \<Rightarrow> int \<Rightarrow> int list
     \<Rightarrow> error + (nat \<times> score) list" where
  "find_similar_cells rt m query_embedding embeddings_matrix k exclude_indices =
     (if query_embedding = None \<or> list_ex (\<lambda>r. list_ex (\<lambda>c. c = None) r) embeddings_matrix
      then Inl (case m of Dot \<Rightarrow> TypeError | _ \<Rightarrow> ValueError)
      else find_similar rt m (the query_embedding) (map (map the) embeddings_matrix)
             k exclude_indices)"

definition embedding_column :: "string \<Rightarrow> (track \<Rightarrow> vec option) option" where
  \<comment> \<open>lines 121-122: the column \<^verbatim>\<open>f'{embedding_type}_embedding'\<close>, if the frame has it.\<close>
  "embedding_column embedding_type =
     (if embedding_type = ''combined'' then Some combined_embedding
      else if embedding_type = ''text'' then Some text_embedding
      else if embedding_type = ''feature'' then Some feature_embedding
      else None)"

definition round_half_even :: "real \<Rightarrow> int" where
  "round_half_even x =
     (let f = \<lfloor>x\<rfloor>; d = x - of_int f
      in if d < 1 / 2 then f else if d > 1 / 2 then f + 1 else if even f then f else f + 1)"

definition round4 :: "score \<Rightarrow> score" where
  \<comment> \<open>\<^verbatim>\<open>round(similarity_score, 4)\<close>; an infinite float is returned as it is.\<close>
  "round4 s =
     (case s of NegInf \<Rightarrow> NegInf | Fin x \<Rightarrow> Fin (of_int (round_half_even (x * 10000)) / 10000))"

record recommendation =
  rec_track_id :: string
  rec_track_name :: string
  rec_artist_name :: string
  rec_album_name :: string
  similarity_score :: score

fun collect ::
  "rec_config \<Rightarrow> track list \<Rightarrow> string \<Rightarrow> nat \<Rightarrow> int \<Rightarrow> (nat \<times> score) list
     \<Rightarrow> recommendation list \<Rightarrow> recommendation list" where
  \<comment> \<open>The loop of lines 145-170 on the list \<open>recommendations\<close>.\<close>
  "collect config df query_artist_name query_index k [] recommendations = recommendations"
| "collect config df query_artist_name query_index k ((idx, s) # rest) recommendations =
     (if idx = query_index
      then collect config df query_artist_name query_index k rest recommendations
      else
        (let track = df ! idx
         in if exclude_same_artist config \<and> artist_name track = query_artist_name
            then collect config df query_artist_name query_index k rest recommendations
            else if s < Fin (min_similarity_threshold config)
            then collect config df query_artist_name query_index k rest recommendations
            else
              (let recommendations' = recommendations @
                     [\<lparr>rec_track_id = track_id track, rec_track_name = track_name track,
                       rec_artist_name = artist_name track, rec_album_name = album_name track,
                       similarity_score = round4 s\<rparr>]
               in if int (length recommendations') \<ge> k then recommendations'
                  else collect config df query_artist_name query_index k rest
                         recommendations')))"

definition get_recommendations ::
  "runtime \<Rightarrow> metric \<Rightarrow> rec_config \<Rightarrow> track list
     \<Rightarrow> string option \<Rightarrow> string option \<Rightarrow> string option \<Rightarrow> int \<Rightarrow> string
     \<Rightarrow> error + recommendation list" where
  \<comment> \<open>\<open>df\<close> is the cached (or freshly loaded) frame; \<open>Inl\<close> is an exception that leaves
      the method.\<close>
  "get_recommendations rt m config df tid tname artist k embedding_type =
     (case find_track rt config df tid tname artist of
        None \<Rightarrow> Inr []
      | Some query_row \<Rightarrow>
          (let query = hd query_row
           in case embedding_column embedding_type of
                None \<Rightarrow> Inr []
              | Some col \<Rightarrow>
                  (case vstack (map col df) of
                     Inl e \<Rightarrow> Inl e
                   | Inr embeddings_matrix \<Rightarrow>
                       (let query_index =
                              length (takeWhile (\<lambda>r. track_id r \<noteq> track_id query) df)
                        in case find_similar_cells rt m (col query) embeddings_matrix (k + 1)
                                  [int query_index] of
                             Inl e \<Rightarrow> Inl e
                           | Inr similar_indices \<Rightarrow>
                               Inr (collect config df (artist_name query) query_index k
                                      similar_indices [])))))"

section \<open>FeatureEmbeddingsGenerator (src/embeddings/generators/feature_embeddings.py)\<close>

text \<open>
  A feature column is the list of its cells; \<open>None\<close> is a missing value (\<^verbatim>\<open>NaN\<close>). The
  frame \<open>X\<close> is the list of its columns.
\<close>

definition observed :: "real option list \<Rightarrow> real list" where
  "observed col = concat (map (\<lambda>c. case c of None \<Rightarrow> [] | Some x \<Rightarrow> [x]) col)"

definition median :: "real option list \<Rightarrow> real option" where
  \<comment> \<open>\<^verbatim>\<open>Series.median()\<close>: missing cells are skipped; with no observed cell the result
      is \<^verbatim>\<open>NaN\<close>.\<close>
  "median col =
     (let xs = sort (observed col); n = length xs
      in if n = 0 then None
         else if odd n then Some (xs ! (n div 2))
         else Some ((xs ! (n div 2 - 1) + xs ! (n div 2)) / 2))"

definition fillna :: "real option \<Rightarrow> real option list \<Rightarrow> real option list" where
  \<comment> \<open>\<^verbatim>\<open>Series.fillna(value)\<close>; filling with \<^verbatim>\<open>NaN\<close> leaves the cell missing.\<close>
  "fillna v col = map (\<lambda>c. case c of None \<Rightarrow> v | Some x \<Rightarrow> Some x) col"

definition handle_missing_values :: "real option list list \<Rightarrow> real option list list" where
  \<comment> \<open>\<^verbatim>\<open>_handle_missing_values\<close>, with the in-place fill writing into \<open>X\<close>.\<close>
  "handle_missing_values X =
     map (\<lambda>col. if list_ex (\<lambda>c. c = None) col then fillna (median col) col else col) X"

section \<open>Instances for the examples\<close>

text \<open>
  The examples below are evaluated with one instance of the library functions. On the
  inputs of the examples it computes what the libraries compute: the strings are ASCII,
  the string ratio is applied to equal strings (1) and to strings that share no character
  (0), the arithmetic is applied where the binary64 result is the exact one (operands 0
  and 1, and \<^verbatim>\<open>1*0.7 + 1*0.3\<close>, which binary64 evaluates to \<^verbatim>\<open>1.0\<close>), and the sort is a
  stable one, a behaviour that \<^verbatim>\<open>np.argsort\<close> may show and that matters only where the
  example says so.
\<close>

definition lower_char :: "char \<Rightarrow> char" where
  "lower_char c =
     (let n = (of_char c :: nat) in if 65 \<le> n \<and> n \<le> 90 then char_of (n + 32) else c)"

definition ascii_lower :: "string \<Rightarrow> string" where
  "ascii_lower s = map lower_char s"

definition example_ratio :: "string \<Rightarrow> string \<Rightarrow> real" where
  "example_ratio a b = (if a = b then 1 else if list_ex (\<lambda>c. c \<in> set b) a then 1 / 2 else 0)"

definition stable_argsort :: "score list \<Rightarrow> nat list" where
  "stable_argsort sims = sort_key (\<lambda>i. sims ! i) [0..<length sims]"

definition example_runtime :: runtime where
  "example_runtime =
     \<lparr>str_lower = ascii_lower, sm_ratio = example_ratio, fl_mul = (\<lambda>x y. x * y), fl_add = (\<lambda>x y. x + y),
      np_argsort = stable_argsort\<rparr>"

definition exact_ops :: "real np_ops" where
  "exact_ops = \<lparr>np_norm = l2_norm, is_zero = (\<lambda>x. x = 0), np_div = (\<lambda>x y. x / y),
                 np_mul = (\<lambda>x y. x * y)\<rparr>"

abbreviation example_track ::
  "string \<Rightarrow> string \<Rightarrow> string \<Rightarrow> vec option \<Rightarrow> track" where
  "example_track i n a v \<equiv>
     \<lparr>track_id = i, track_name = n, artist_name = a, album_name = ''album'',
      combined_embedding = v, text_embedding = v, feature_embedding = v\<rparr>"

section \<open>Properties of the combiner\<close>






text \<open>
  Claim C8. A missing text vector or a missing feature vector gives a missing combined
  vector, for all weights, either value of the normalize flag and whatever the arithmetic
  computes: for one record, and for every row of the column that \<^verbatim>\<open>combine_embeddings\<close>
  adds to the frame.
\<close>

theorem absence_propagates:
  "combine_row ops c None feature_emb = None \<and> combine_row ops c text_emb None = None \<and>
   (\<forall>col i. combine_embeddings ops c has_columns df = Some col \<and> i < length df \<and>
       (fst (df ! i) = None \<or> snd (df ! i) = None) \<longrightarrow> col ! i = None)"
  by (auto simp add: combine_row_def combine_embeddings_def
      split: option.splits prod.splits if_splits)

theorem absence_propagates_witness:
  "combine_embeddings exact_ops \<lparr>text_weight = 1, features_weight = 1, normalize = False\<rparr> True
       [(None, Some [1]), (Some [1], Some [0])] = Some [None, Some [1, 0]] \<and>
   (0::nat) < length [(None, Some [1::real]), (Some [1::real], Some [0::real])] \<and>
   fst ([(None :: vec option, Some [1::real]), (Some [1], Some [0])] ! 0) = None \<and>
   [None, Some [1, 0 :: real]] ! 0 = None"
  using absence_propagates
    [of exact_ops "\<lparr>text_weight = 1, features_weight = 1, normalize = False\<rparr>" "Some [1]"
        "Some [1]" True "[(None, Some [1]), (Some [1], Some [0])]"]
  by (simp add: combine_embeddings_def combine_row_def weighted_concat_def exact_ops_def)

section \<open>Properties of the similarity engine\<close>

lemma valid_stable_argsort: "valid_argsort stable_argsort"
  by (simp add: valid_argsort_def stable_argsort_def)

lemma valid_example_runtime: "valid_argsort (np_argsort example_runtime)"
  by (simp add: example_runtime_def valid_stable_argsort)

lemma valid_argsortD:
  assumes "valid_argsort f"
  shows "length (f sims) = length sims" and "set (f sims) = {0..<length sims}"
    and "sorted (map (\<lambda>i. sims ! i) (f sims))"
  using assms unfolding valid_argsort_def by blast+












lemma argsort_two:
  assumes "valid_argsort f"
  shows "f [NegInf, Fin 0] = [0, 1]" and "f [Fin 0, Fin 1] = [0, 1]"
proof -
  have two: "f [x, y] = [0, 1]" if "\<not> y \<le> x" for x y
  proof -
    let ?s = "[x, y]"
    have l: "length (f ?s) = Suc (Suc 0)"
      using valid_argsortD(1) [OF assms, of ?s] by simp
    have "{0..<length ?s} = {0, Suc 0}"
      by auto
    then have st: "set (f ?s) = {0, Suc 0}"
      using valid_argsortD(2) [OF assms, of ?s] by (simp only:)
    have so: "sorted (map (\<lambda>i. ?s ! i) (f ?s))"
      by (rule valid_argsortD(3) [OF assms])
    from l obtain a b where ab: "f ?s = [a, b]"
      by (auto simp add: length_Suc_conv)
    from st ab have "{a, b} = {0, Suc 0}"
      by simp
    then have cases: "(a = 0 \<and> b = Suc 0) \<or> (a = Suc 0 \<and> b = 0)"
      unfolding doubleton_eq_iff .
    from so ab have le: "?s ! a \<le> ?s ! b"
      by simp
    from cases show ?thesis
    proof
      assume "a = 0 \<and> b = Suc 0"
      with ab show ?thesis
        by simp
    next
      assume "a = Suc 0 \<and> b = 0"
      with le have "y \<le> x"
        by simp
      with that show ?thesis
        by blast
    qed
  qed
  show "f [NegInf, Fin 0] = [0, 1]"
    by (rule two) simp
  show "f [Fin 0, Fin 1] = [0, 1]"
    by (rule two) simp
qed



text \<open>
  Claim C1 at a failing input: two candidates, \<open>k = 2\<close>, index 0 excluded. The excluded
  index is only given the score \<^verbatim>\<open>-np.inf\<close>; with \<open>k\<close> larger than the number of
  remaining candidates it is returned, at the end of the list. No two scores are equal
  here, so this is the result for every tie order of \<^verbatim>\<open>np.argsort\<close>.
\<close>

theorem find_similar_returns_excluded:
  assumes "valid_argsort (np_argsort rt)"
  shows "find_similar rt Cosine [1, 0] [[1, 0], [0, 1]] 2 [0] = Inr [(1, Fin 0), (0, NegInf)]"
proof -
  have s: "similarities Cosine [1, 0] [[1, 0], [0, 1]] = Inr [1, 0]"
    by (simp add: similarities_def cosine_similarity_def sk_check_def sk_normalize_def
        l2_norm_def dot_def)
  have e: "exclude [0] (map Fin [1, 0]) = [NegInf, Fin 0]"
    by simp
  have "find_similar rt Cosine [1, 0] [[1, 0], [0, 1]] 2 [0] = Inr (top_k rt 2 [NegInf, Fin 0])"
    unfolding find_similar_def s e by simp
  also have "top_k rt 2 [NegInf, Fin 0] = [(1, Fin 0), (0, NegInf)]"
    by (simp add: top_k_def py_prefix_def argsort_two(1) [OF assms])
  finally show ?thesis .
qed

theorem find_similar_returns_excluded_witness:
  "valid_argsort (np_argsort example_runtime) \<and>
   find_similar example_runtime Cosine [1, 0] [[1, 0], [0, 1]] 2 [0]
     = Inr [(1, Fin 0), (0, NegInf)]"
  using find_similar_returns_excluded [OF valid_example_runtime] valid_example_runtime
  by blast

section \<open>Properties of the recommender\<close>

lemma lower_examples:
  "ascii_lower ''Yellow'' = ''yellow''" "ascii_lower ''yellow'' = ''yellow''"
  "ascii_lower ''Coldplay'' = ''coldplay''" "ascii_lower ''Hurt'' = ''hurt''"
  "ascii_lower ''hurt'' = ''hurt''" "ascii_lower ''Johnny Cash'' = ''johnny cash''"
  "ascii_lower ''johnny cash'' = ''johnny cash''"
  "ascii_lower ''Nine Inch Nails'' = ''nine inch nails''"
  "ascii_lower ''Song 2'' = ''song 2''" "ascii_lower ''Blur'' = ''blur''"
  "ascii_lower ''xyz'' = ''xyz''" "ascii_lower ''abc'' = ''abc''"
  by code_simp+

lemma example_runtime_simps:
  "str_lower example_runtime = ascii_lower" "sm_ratio example_runtime = example_ratio"
  "fl_mul example_runtime = (\<lambda>x y. x * y)" "fl_add example_runtime = (\<lambda>x y. x + y)"
  "np_argsort example_runtime = stable_argsort"
  by (simp_all add: example_runtime_def)

lemma find_track_id_found:
  assumes "truthy tid" and "\<exists>r\<in>set df. track_id r = the tid"
  shows "find_track rt config df tid tname artist
           = Some (filter (\<lambda>r. track_id r = the tid) df)"
proof -
  from assms(2) have "filter (\<lambda>r. track_id r = the tid) df \<noteq> []"
    by (simp add: filter_empty_conv)
  with assms(1) show ?thesis
    by (simp add: find_track_def)
qed

lemma find_track_id_not_found:
  assumes "\<not> (truthy tid \<and> (\<exists>r\<in>set df. track_id r = the tid))"
  shows "find_track rt config df tid tname artist = find_track rt config df None tname artist"
proof -
  from assms have "(if truthy tid then filter (\<lambda>r. track_id r = the tid) df else []) = []"
    by (auto simp add: filter_empty_conv)
  then show ?thesis
    by (simp add: find_track_def truthy_def)
qed

text \<open>
  Claim C5, as amended. Resolution by identifier has the highest priority: when
  \<open>track_id\<close> is given and some record carries it, the rows with that identifier are
  returned and the name is not consulted. When \<open>track_id\<close> is absent or empty, or is
  given but carried by no record, resolution goes on exactly as if no identifier had been
  supplied, so name matching (exact, then fuzzy) is used whenever \<open>track_name\<close> is given.
\<close>

theorem find_track_by_id:
  "(truthy tid \<and> (\<exists>r\<in>set df. track_id r = the tid) \<longrightarrow>
      find_track rt config df tid tname artist
        = Some (filter (\<lambda>r. track_id r = the tid) df)) \<and>
   (\<not> (truthy tid \<and> (\<exists>r\<in>set df. track_id r = the tid)) \<longrightarrow>
      find_track rt config df tid tname artist
        = find_track rt config df None tname artist)"
  using find_track_id_found find_track_id_not_found by blast

text \<open>
  Claim C5 as stated fails when the identifier is given but unknown: the lookup by
  \<open>track_id = zz\<close> finds nothing and the record is then resolved by its name.
\<close>

theorem find_track_name_after_id_counterexample:
  "find_track example_runtime default_config
     [example_track ''t1'' ''Yellow'' ''Coldplay'' (Some [1, 0])]
     (Some ''zz'') (Some ''yellow'') None
   = Some [example_track ''t1'' ''Yellow'' ''Coldplay'' (Some [1, 0])]"
  by (simp add: find_track_def narrowed_def name_matches_def truthy_def lower_examples
      example_runtime_simps)

theorem find_track_by_id_witness:
  "truthy (Some ''t2'') \<and>
   find_track example_runtime default_config
     [example_track ''t1'' ''Yellow'' ''Coldplay'' None,
      example_track ''t2'' ''Hurt'' ''Johnny Cash'' None]
     (Some ''t2'') (Some ''yellow'') None
   = Some [example_track ''t2'' ''Hurt'' ''Johnny Cash'' None] \<and>
   \<not> truthy (Some []) \<and>
   find_track example_runtime default_config
     [example_track ''t1'' ''Yellow'' ''Coldplay'' None,
      example_track ''t2'' ''Hurt'' ''Johnny Cash'' None]
     (Some []) (Some ''yellow'') None
   = find_track example_runtime default_config
     [example_track ''t1'' ''Yellow'' ''Coldplay'' None,
      example_track ''t2'' ''Hurt'' ''Johnny Cash'' None]
     None (Some ''yellow'') None"
  using
    find_track_by_id [of "Some ''t2''"
      "[example_track ''t1'' ''Yellow'' ''Coldplay'' None,
        example_track ''t2'' ''Hurt'' ''Johnny Cash'' None]"
      example_runtime default_config "Some ''yellow''" None]
    find_track_by_id [of "Some []"
      "[example_track ''t1'' ''Yellow'' ''Coldplay'' None,
        example_track ''t2'' ''Hurt'' ''Johnny Cash'' None]"
      example_runtime default_config "Some ''yellow''" None]
  by (simp add: truthy_def)

lemma narrowed_filter:
  assumes "1 < length (filter (\<lambda>r. str_lower rt (track_name r) = str_lower rt name) df)"
  shows "narrowed rt df name artist =
           filter (\<lambda>r. str_lower rt (track_name r) = str_lower rt name \<and>
                       (truthy artist \<longrightarrow>
                          str_lower rt (artist_name r) = str_lower rt (the artist))) df"
proof (cases "truthy artist")
  case True
  with assms show ?thesis
    by (simp add: narrowed_def name_matches_def Let_def conj_commute)
next
  case False
  then show ?thesis
    by (simp add: narrowed_def name_matches_def Let_def)
qed

text \<open>
  Claim C10. When the identifier lookup does not resolve, the case-insensitive exact name
  match yields several rows and more than one row remains after the optional narrowing by
  artist (which is skipped when no artist is given), \<^verbatim>\<open>_find_track\<close> returns the first row
  of the frame whose lower-cased name equals the lower-cased query name and, when an
  artist is given, whose lower-cased artist equals the lower-cased query artist. This
  holds for every case mapping \<^verbatim>\<open>str.lower\<close>, and the result does not depend on the
  fuzzy configuration or on the string ratio: fuzzy matching is not reached.
\<close>

theorem find_track_first_match:
  assumes "\<not> (truthy tid \<and> (\<exists>r\<in>set df. track_id r = the tid))"
    and "truthy tname"
    and "1 < length (filter (\<lambda>r. str_lower rt (track_name r) = str_lower rt (the tname)) df)"
    and "1 < length
           (filter (\<lambda>r. str_lower rt (track_name r) = str_lower rt (the tname) \<and>
                        (truthy artist \<longrightarrow>
                           str_lower rt (artist_name r) = str_lower rt (the artist))) df)"
  shows "find_track rt config df tid tname artist
           = Some [hd (filter (\<lambda>r. str_lower rt (track_name r) = str_lower rt (the tname) \<and>
                                   (truthy artist \<longrightarrow>
                                      str_lower rt (artist_name r)
                                        = str_lower rt (the artist))) df)]"
proof -
  let ?sel = "filter (\<lambda>r. str_lower rt (track_name r) = str_lower rt (the tname) \<and>
                          (truthy artist \<longrightarrow>
                             str_lower rt (artist_name r) = str_lower rt (the artist))) df"
  have n: "narrowed rt df (the tname) artist = ?sel"
    by (rule narrowed_filter [OF assms(3)])
  from assms(4) obtain x xs where sel: "?sel = x # xs"
    by (cases ?sel) simp_all
  have "\<not> truthy None"
    by (simp add: truthy_def)
  then have "find_track rt config df None tname artist = Some [x]"
    using assms(2) by (simp add: find_track_def n sel)
  with find_track_id_not_found [OF assms(1)] sel show ?thesis
    by simp
qed

theorem find_track_first_match_witness:
  "\<not> truthy None \<and> truthy (Some ''hurt'') \<and> truthy (Some ''johnny cash'') \<and>
   filter (\<lambda>r. str_lower example_runtime (track_name r) = str_lower example_runtime ''hurt'')
     [example_track ''t1'' ''Hurt'' ''Nine Inch Nails'' None,
      example_track ''t2'' ''Yellow'' ''Coldplay'' None,
      example_track ''t3'' ''Hurt'' ''Johnny Cash'' None,
      example_track ''t4'' ''Hurt'' ''Johnny Cash'' None]
     = [example_track ''t1'' ''Hurt'' ''Nine Inch Nails'' None,
        example_track ''t3'' ''Hurt'' ''Johnny Cash'' None,
        example_track ''t4'' ''Hurt'' ''Johnny Cash'' None] \<and>
   find_track example_runtime default_config
     [example_track ''t1'' ''Hurt'' ''Nine Inch Nails'' None,
      example_track ''t2'' ''Yellow'' ''Coldplay'' None,
      example_track ''t3'' ''Hurt'' ''Johnny Cash'' None,
      example_track ''t4'' ''Hurt'' ''Johnny Cash'' None]
     None (Some ''hurt'') (Some ''johnny cash'')
     = Some [example_track ''t3'' ''Hurt'' ''Johnny Cash'' None] \<and>
   find_track example_runtime default_config
     [example_track ''t1'' ''Hurt'' ''Nine Inch Nails'' None,
      example_track ''t2'' ''Yellow'' ''Coldplay'' None,
      example_track ''t3'' ''Hurt'' ''Johnny Cash'' None,
      example_track ''t4'' ''Hurt'' ''Johnny Cash'' None]
     None (Some ''hurt'') None
     = Some [example_track ''t1'' ''Hurt'' ''Nine Inch Nails'' None]"
proof -
  let ?df = "[example_track ''t1'' ''Hurt'' ''Nine Inch Nails'' None,
              example_track ''t2'' ''Yellow'' ''Coldplay'' None,
              example_track ''t3'' ''Hurt'' ''Johnny Cash'' None,
              example_track ''t4'' ''Hurt'' ''Johnny Cash'' None]"
  let ?name = "\<lambda>r. str_lower example_runtime (track_name r) = str_lower example_runtime ''hurt''"
  have nm: "filter ?name ?df
      = [example_track ''t1'' ''Hurt'' ''Nine Inch Nails'' None,
         example_track ''t3'' ''Hurt'' ''Johnny Cash'' None,
         example_track ''t4'' ''Hurt'' ''Johnny Cash'' None]"
    by (simp add: lower_examples example_runtime_simps)
  have both: "filter (\<lambda>r. ?name r \<and> (truthy (Some ''johnny cash'') \<longrightarrow>
        str_lower example_runtime (artist_name r)
          = str_lower example_runtime (the (Some ''johnny cash'')))) ?df
      = [example_track ''t3'' ''Hurt'' ''Johnny Cash'' None,
         example_track ''t4'' ''Hurt'' ''Johnny Cash'' None]"
    by (simp add: lower_examples example_runtime_simps truthy_def)
  have only: "filter (\<lambda>r. ?name r \<and> (truthy None \<longrightarrow>
        str_lower example_runtime (artist_name r)
          = str_lower example_runtime (the None))) ?df
      = [example_track ''t1'' ''Hurt'' ''Nine Inch Nails'' None,
         example_track ''t3'' ''Hurt'' ''Johnny Cash'' None,
         example_track ''t4'' ''Hurt'' ''Johnny Cash'' None]"
    by (simp add: lower_examples example_runtime_simps truthy_def)
  have h1: "\<not> (truthy None \<and> (\<exists>r\<in>set ?df. track_id r = the None))"
    by (simp add: truthy_def)
  have h2: "truthy (Some ''hurt'')" and h2': "truthy (Some ''johnny cash'')"
    by (simp_all add: truthy_def)
  have h3: "1 < length (filter (\<lambda>r. str_lower example_runtime (track_name r)
      = str_lower example_runtime (the (Some ''hurt''))) ?df)"
    using nm by simp
  have h4: "1 < length (filter (\<lambda>r. str_lower example_runtime (track_name r)
        = str_lower example_runtime (the (Some ''hurt'')) \<and>
      (truthy (Some ''johnny cash'') \<longrightarrow> str_lower example_runtime (artist_name r)
        = str_lower example_runtime (the (Some ''johnny cash'')))) ?df)"
    using both by simp
  have h5: "1 < length (filter (\<lambda>r. str_lower example_runtime (track_name r)
        = str_lower example_runtime (the (Some ''hurt'')) \<and>
      (truthy None \<longrightarrow> str_lower example_runtime (artist_name r)
        = str_lower example_runtime (the None))) ?df)"
    using only by simp
  have r1: "find_track example_runtime default_config ?df None (Some ''hurt'')
      (Some ''johnny cash'') = Some [example_track ''t3'' ''Hurt'' ''Johnny Cash'' None]"
    using find_track_first_match [OF h1 h2 h3 h4, of default_config] both by simp
  have r2: "find_track example_runtime default_config ?df None (Some ''hurt'') None
      = Some [example_track ''t1'' ''Hurt'' ''Nine Inch Nails'' None]"
    using find_track_first_match [OF h1 h2 h3 h5, of default_config] only by simp
  from h2 h2' nm r1 r2 show ?thesis
    by (simp add: truthy_def)
qed

lemma binary64_facts_example: "binary64_facts example_runtime"
  by (simp add: binary64_facts_def example_runtime_simps add_mono mult_right_mono)

lemma example_ratio_range: "\<forall>a b. 0 \<le> example_ratio a b \<and> example_ratio a b \<le> 1"
  by (simp add: example_ratio_def)

lemma combined_score_range:
  assumes "\<forall>a b. 0 \<le> sm_ratio rt a b \<and> sm_ratio rt a b \<le> 1" and "binary64_facts rt"
  shows "0 \<le> combined_score rt name artist r \<and> combined_score rt name artist r \<le> 1"
proof (cases "truthy artist")
  case False
  with assms(1) show ?thesis
    by (simp add: combined_score_def Let_def)
next
  case True
  let ?n = "sm_ratio rt (str_lower rt name) (str_lower rt (track_name r))"
  let ?a = "sm_ratio rt (str_lower rt (the artist)) (str_lower rt (artist_name r))"
  have n: "0 \<le> ?n" "?n \<le> 1" and a: "0 \<le> ?a" "?a \<le> 1"
    using assms(1) by simp_all
  have add: "\<And>x x' y y'. x \<le> x' \<Longrightarrow> y \<le> y' \<Longrightarrow> fl_add rt x y \<le> fl_add rt x' y'"
    and mul: "\<And>x x' c. x \<le> x' \<Longrightarrow> 0 \<le> c \<Longrightarrow> fl_mul rt x c \<le> fl_mul rt x' c"
    and lo: "fl_add rt (fl_mul rt 0 0.7) (fl_mul rt 0 0.3) = 0"
    and hi: "fl_add rt (fl_mul rt 1 0.7) (fl_mul rt 1 0.3) = 1"
    using assms(2) unfolding binary64_facts_def by blast+
  have "fl_add rt (fl_mul rt 0 0.7) (fl_mul rt 0 0.3)
          \<le> fl_add rt (fl_mul rt ?n 0.7) (fl_mul rt ?a 0.3)"
    by (intro add mul n a) simp_all
  moreover have "fl_add rt (fl_mul rt ?n 0.7) (fl_mul rt ?a 0.3)
          \<le> fl_add rt (fl_mul rt 1 0.7) (fl_mul rt 1 0.3)"
    by (intro add mul n a) simp_all
  ultimately have "0 \<le> fl_add rt (fl_mul rt ?n 0.7) (fl_mul rt ?a 0.3)"
    and "fl_add rt (fl_mul rt ?n 0.7) (fl_mul rt ?a 0.3) \<le> 1"
    unfolding lo hi by blast+
  with True show ?thesis
    by (simp add: combined_score_def Let_def)
qed

lemma fuzzy_scan_result:
  "(fuzzy_scan rt thr name artist rows (bm, bs) = (bm, bs) \<and>
      (\<forall>r\<in>set rows. \<not> (bs < combined_score rt name artist r \<and>
                            thr \<le> combined_score rt name artist r))) \<or>
   (\<exists>pre best post.
      fuzzy_scan rt thr name artist rows (bm, bs)
        = (Some best, combined_score rt name artist best) \<and>
      rows = pre @ best # post \<and>
      bs < combined_score rt name artist best \<and>
      thr \<le> combined_score rt name artist best \<and>
      (\<forall>r\<in>set pre. combined_score rt name artist r < combined_score rt name artist best) \<and>
      (\<forall>r\<in>set post. combined_score rt name artist r \<le> combined_score rt name artist best))"
  (is "?P rows bm bs")
proof (induction rows arbitrary: bm bs)
  case Nil
  show ?case by simp
next
  case (Cons row rows)
  let ?s = "combined_score rt name artist"
  show ?case
  proof (cases "bs < ?s row \<and> thr \<le> ?s row")
    case True
    then have step: "fuzzy_scan rt thr name artist (row # rows) (bm, bs)
        = fuzzy_scan rt thr name artist rows (Some row, ?s row)"
      by simp
    from Cons.IH [of "Some row" "?s row"] show ?thesis
    proof (elim disjE conjE exE)
      assume same: "fuzzy_scan rt thr name artist rows (Some row, ?s row) = (Some row, ?s row)"
        and none: "\<forall>r\<in>set rows. \<not> (?s row < ?s r \<and> thr \<le> ?s r)"
      have "\<forall>r\<in>set rows. ?s r \<le> ?s row"
      proof
        fix r assume "r \<in> set rows"
        with none have "\<not> (?s row < ?s r \<and> thr \<le> ?s r)"
          by blast
        with True show "?s r \<le> ?s row"
          by linarith
      qed
      with step same True have
        "fuzzy_scan rt thr name artist (row # rows) (bm, bs) = (Some row, ?s row) \<and>
         row # rows = [] @ row # rows \<and> bs < ?s row \<and> thr \<le> ?s row \<and>
         (\<forall>r\<in>set []. ?s r < ?s row) \<and> (\<forall>r\<in>set rows. ?s r \<le> ?s row)"
        by simp
      then show ?thesis
        by blast
    next
      fix pre best post
      assume res: "fuzzy_scan rt thr name artist rows (Some row, ?s row) = (Some best, ?s best)"
        and split: "rows = pre @ best # post"
        and gt: "?s row < ?s best" and thr: "thr \<le> ?s best"
        and pre: "\<forall>r\<in>set pre. ?s r < ?s best" and post: "\<forall>r\<in>set post. ?s r \<le> ?s best"
      from True gt have "bs < ?s best"
        by linarith
      with step res split gt thr pre post have
        "fuzzy_scan rt thr name artist (row # rows) (bm, bs) = (Some best, ?s best) \<and>
         row # rows = (row # pre) @ best # post \<and> bs < ?s best \<and> thr \<le> ?s best \<and>
         (\<forall>r\<in>set (row # pre). ?s r < ?s best) \<and> (\<forall>r\<in>set post. ?s r \<le> ?s best)"
        by simp
      then show ?thesis
        by blast
    qed
  next
    case False
    then have step: "fuzzy_scan rt thr name artist (row # rows) (bm, bs)
        = fuzzy_scan rt thr name artist rows (bm, bs)"
      by auto
    from Cons.IH [of bm bs] show ?thesis
    proof (elim disjE conjE exE)
      assume same: "fuzzy_scan rt thr name artist rows (bm, bs) = (bm, bs)"
        and none: "\<forall>r\<in>set rows. \<not> (bs < ?s r \<and> thr \<le> ?s r)"
      from none False have "\<forall>r\<in>set (row # rows). \<not> (bs < ?s r \<and> thr \<le> ?s r)"
        by simp
      moreover from same have "fuzzy_scan rt thr name artist (row # rows) (bm, bs) = (bm, bs)"
        by (simp only: step)
      ultimately show ?thesis
        by blast
    next
      fix pre best post
      assume res: "fuzzy_scan rt thr name artist rows (bm, bs) = (Some best, ?s best)"
        and split: "rows = pre @ best # post"
        and gt: "bs < ?s best" and thr: "thr \<le> ?s best"
        and pre: "\<forall>r\<in>set pre. ?s r < ?s best" and post: "\<forall>r\<in>set post. ?s r \<le> ?s best"
      from False gt thr have "?s row < ?s best"
        by linarith
      with step res split gt thr pre post have
        "fuzzy_scan rt thr name artist (row # rows) (bm, bs) = (Some best, ?s best) \<and>
         row # rows = (row # pre) @ best # post \<and> bs < ?s best \<and> thr \<le> ?s best \<and>
         (\<forall>r\<in>set (row # pre). ?s r < ?s best) \<and> (\<forall>r\<in>set post. ?s r \<le> ?s best)"
        by simp
      then show ?thesis
        by blast
    qed
  qed
qed

text \<open>
  Claim C7, as amended. Every candidate is scored with the string ratio of the lower-cased
  names, combined in binary64 arithmetic as \<open>name_ratio * 0.7 + artist_ratio * 0.3\<close> when
  an artist is given and taken alone otherwise; with a ratio in \<open>[0, 1]\<close> the computed
  score lies in \<open>[0, 1]\<close>. \<^verbatim>\<open>_fuzzy_search\<close> returns the first candidate whose computed
  score is maximal over the whole frame if and only if that computed score is at least
  the configured threshold and greater than 0; otherwise it returns \<^verbatim>\<open>None\<close>.
\<close>

theorem fuzzy_search_best:
  "(\<forall>r. combined_score rt name artist r =
          (if truthy artist
           then fl_add rt
                  (fl_mul rt (sm_ratio rt (str_lower rt name) (str_lower rt (track_name r))) 0.7)
                  (fl_mul rt (sm_ratio rt (str_lower rt (the artist))
                                (str_lower rt (artist_name r))) 0.3)
           else sm_ratio rt (str_lower rt name) (str_lower rt (track_name r)))) \<and>
   ((\<forall>a b. 0 \<le> sm_ratio rt a b \<and> sm_ratio rt a b \<le> 1) \<and> binary64_facts rt \<longrightarrow>
      (\<forall>r. 0 \<le> combined_score rt name artist r \<and> combined_score rt name artist r \<le> 1)) \<and>
   ((fuzzy_search rt config df name artist = None \<and>
     (\<forall>r\<in>set df. \<not> (0 < combined_score rt name artist r \<and>
                      fuzzy_threshold config \<le> combined_score rt name artist r))) \<or>
    (\<exists>pre best post.
       fuzzy_search rt config df name artist = Some [best] \<and>
       df = pre @ best # post \<and>
       0 < combined_score rt name artist best \<and>
       fuzzy_threshold config \<le> combined_score rt name artist best \<and>
       (\<forall>r\<in>set pre. combined_score rt name artist r < combined_score rt name artist best) \<and>
       (\<forall>r\<in>set post. combined_score rt name artist r
                        \<le> combined_score rt name artist best)))"
proof (intro conjI)
  show "\<forall>r. combined_score rt name artist r =
          (if truthy artist
           then fl_add rt
                  (fl_mul rt (sm_ratio rt (str_lower rt name) (str_lower rt (track_name r))) 0.7)
                  (fl_mul rt (sm_ratio rt (str_lower rt (the artist))
                                (str_lower rt (artist_name r))) 0.3)
           else sm_ratio rt (str_lower rt name) (str_lower rt (track_name r)))"
    by (simp add: combined_score_def Let_def)
next
  show "(\<forall>a b. 0 \<le> sm_ratio rt a b \<and> sm_ratio rt a b \<le> 1) \<and> binary64_facts rt \<longrightarrow>
      (\<forall>r. 0 \<le> combined_score rt name artist r \<and> combined_score rt name artist r \<le> 1)"
    using combined_score_range by blast
next
  let ?s = "combined_score rt name artist"
  from fuzzy_scan_result [of rt "fuzzy_threshold config" name artist df None 0]
  show "(fuzzy_search rt config df name artist = None \<and>
           (\<forall>r\<in>set df. \<not> (0 < ?s r \<and> fuzzy_threshold config \<le> ?s r))) \<or>
          (\<exists>pre best post.
             fuzzy_search rt config df name artist = Some [best] \<and>
             df = pre @ best # post \<and> 0 < ?s best \<and> fuzzy_threshold config \<le> ?s best \<and>
             (\<forall>r\<in>set pre. ?s r < ?s best) \<and> (\<forall>r\<in>set post. ?s r \<le> ?s best))"
  proof (elim disjE conjE exE)
    assume "fuzzy_scan rt (fuzzy_threshold config) name artist df (None, 0) = (None, 0)"
      and none: "\<forall>r\<in>set df. \<not> (0 < ?s r \<and> fuzzy_threshold config \<le> ?s r)"
    then have "fuzzy_search rt config df name artist = None"
      by (simp add: fuzzy_search_def)
    with none show ?thesis
      by blast
  next
    fix pre best post
    assume "fuzzy_scan rt (fuzzy_threshold config) name artist df (None, 0)
              = (Some best, ?s best)"
      and rest: "df = pre @ best # post" "0 < ?s best" "fuzzy_threshold config \<le> ?s best"
        "\<forall>r\<in>set pre. ?s r < ?s best" "\<forall>r\<in>set post. ?s r \<le> ?s best"
    then have "fuzzy_search rt config df name artist = Some [best]"
      by (simp add: fuzzy_search_def)
    with rest show ?thesis
      by blast
  qed
qed

text \<open>
  Claim C7 as stated fails for the threshold 0: the only candidate shares no character
  with the query and scores 0, which is at least the threshold, and yet no record is
  returned, because the scan starts from \<open>best_score = 0\<close> and accepts only a strictly
  greater score.
\<close>

theorem fuzzy_search_zero_threshold_counterexample:
  "fuzzy_search example_runtime
     \<lparr>exclude_same_artist = False, min_similarity_threshold = 0,
      fuzzy_matching = True, fuzzy_threshold = 0\<rparr>
     [example_track ''t1'' ''abc'' ''x'' None] ''xyz'' None = None \<and>
   combined_score example_runtime ''xyz'' None (example_track ''t1'' ''abc'' ''x'' None) = 0 \<and>
   fuzzy_threshold \<lparr>exclude_same_artist = False, min_similarity_threshold = 0,
      fuzzy_matching = True, fuzzy_threshold = 0\<rparr> = 0"
  by (simp add: fuzzy_search_def combined_score_def truthy_def example_ratio_def
      lower_examples example_runtime_simps)

theorem fuzzy_search_best_witness:
  "(\<forall>a b. 0 \<le> sm_ratio example_runtime a b \<and> sm_ratio example_runtime a b \<le> 1) \<and>
   binary64_facts example_runtime \<and>
   fuzzy_search example_runtime default_config
     [example_track ''t1'' ''Song 2'' ''Blur'' None,
      example_track ''t2'' ''Hurt'' ''Johnny Cash'' None]
     ''hurt'' (Some ''johnny cash'')
     = Some [example_track ''t2'' ''Hurt'' ''Johnny Cash'' None] \<and>
   combined_score example_runtime ''hurt'' (Some ''johnny cash'')
     (example_track ''t1'' ''Song 2'' ''Blur'' None) = 0 \<and>
   combined_score example_runtime ''hurt'' (Some ''johnny cash'')
     (example_track ''t2'' ''Hurt'' ''Johnny Cash'' None) = 1 \<and>
   fuzzy_threshold default_config \<le> 1 \<and>
   fuzzy_search example_runtime default_config
     [example_track ''t1'' ''Song 2'' ''Blur'' None] ''hurt'' None = None"
proof -
  let ?df = "[example_track ''t1'' ''Song 2'' ''Blur'' None,
              example_track ''t2'' ''Hurt'' ''Johnny Cash'' None]"
  have rg: "\<forall>a b. 0 \<le> sm_ratio example_runtime a b \<and> sm_ratio example_runtime a b \<le> 1"
    by (simp add: example_runtime_simps example_ratio_range)
  have s1: "combined_score example_runtime ''hurt'' (Some ''johnny cash'')
      (example_track ''t1'' ''Song 2'' ''Blur'' None) = 0"
    by (simp add: combined_score_def truthy_def example_ratio_def lower_examples
        example_runtime_simps)
  have s2: "combined_score example_runtime ''hurt'' (Some ''johnny cash'')
      (example_track ''t2'' ''Hurt'' ''Johnny Cash'' None) = 1"
    by (simp add: combined_score_def truthy_def example_ratio_def lower_examples
        example_runtime_simps)
  have s3: "combined_score example_runtime ''hurt'' None
      (example_track ''t1'' ''Song 2'' ''Blur'' None) = 0"
    by (simp add: combined_score_def truthy_def example_ratio_def lower_examples
        example_runtime_simps)
  have t: "fuzzy_threshold default_config \<le> 1" "0 \<le> fuzzy_threshold default_config"
    by (simp_all add: default_config_def)
  have r: "fuzzy_search example_runtime default_config ?df ''hurt'' (Some ''johnny cash'')
      = Some [example_track ''t2'' ''Hurt'' ''Johnny Cash'' None]"
    using t by (simp add: fuzzy_search_def s1 s2)
  have r0: "fuzzy_search example_runtime default_config
      [example_track ''t1'' ''Song 2'' ''Blur'' None] ''hurt'' None = None"
    by (simp add: fuzzy_search_def s3)
  note best = fuzzy_search_best [of example_runtime "''hurt''" "Some ''johnny cash''"
      default_config ?df]
  then have "\<forall>r. combined_score example_runtime ''hurt'' (Some ''johnny cash'') r \<le> 1"
    using rg binary64_facts_example by blast
  with rg binary64_facts_example r r0 s1 s2 t show ?thesis
    by blast
qed

lemma vstack_cells:
  assumes "vstack cells = Inr M"
  shows "M = map (\<lambda>c. case c of None \<Rightarrow> [None] | Some v \<Rightarrow> map Some v) cells"
  using assms by (simp add: vstack_def Let_def split: if_splits)

lemma vstack_missing:
  assumes "vstack cells = Inr M" and "None \<in> set cells"
  shows "list_ex (\<lambda>r. list_ex (\<lambda>c. c = None) r) M"
proof -
  from assms(2) have "[None] \<in> set (map (\<lambda>c. case c of None \<Rightarrow> [None] | Some v \<Rightarrow> map Some v) cells)"
    by force
  with vstack_cells [OF assms(1)] have "[None] \<in> set M"
    by simp
  then show ?thesis
    unfolding list_ex_iff by force
qed

lemma find_similar_cells_missing:
  assumes "q = None \<or> list_ex (\<lambda>r. list_ex (\<lambda>c. c = None) r) M"
  shows "\<exists>e. find_similar_cells rt m q M k excl = Inl e"
  using assms by (simp add: find_similar_cells_def)

text \<open>
  Claim C3, as amended. When the track is resolved, the embedding column exists and the
  query record or some record of the frame has no vector in that column,
  \<^verbatim>\<open>get_recommendations\<close> returns no list: an exception leaves the method, raised while
  the candidate matrix is stacked or by the similarity computation.
\<close>

theorem get_recommendations_missing_vector:
  assumes "find_track rt config df tid tname artist = Some query_row"
    and "embedding_column embedding_type = Some col"
    and "col (hd query_row) = None \<or> (\<exists>r\<in>set df. col r = None)"
  shows "\<exists>e. get_recommendations rt m config df tid tname artist k embedding_type = Inl e"
proof (cases "vstack (map col df)")
  case (Inl e)
  with assms(1) assms(2) show ?thesis
    by (simp add: get_recommendations_def)
next
  case (Inr M)
  have "col (hd query_row) = None \<or> list_ex (\<lambda>r. list_ex (\<lambda>c. c = None) r) M"
  proof (cases "col (hd query_row) = None")
    case True
    then show ?thesis by simp
  next
    case False
    with assms(3) have "None \<in> set (map col df)"
      by force
    with vstack_missing [OF Inr] show ?thesis
      by simp
  qed
  from find_similar_cells_missing [OF this] obtain e where
    "find_similar_cells rt m (col (hd query_row)) M (k + 1)
       [int (length (takeWhile (\<lambda>r. track_id r \<noteq> track_id (hd query_row)) df))] = Inl e"
    by blast
  with assms(1) assms(2) Inr show ?thesis
    by (simp add: get_recommendations_def Let_def)
qed

text \<open>
  Claim C3 as stated fails on a frame of two records of which the second has no combined
  vector: stacking a row of width 2 on a \<^verbatim>\<open>None\<close> row raises \<open>ValueError\<close>.
\<close>

theorem get_recommendations_raises_counterexample:
  "get_recommendations example_runtime Cosine default_config
     [example_track ''t1'' ''Yellow'' ''Coldplay'' (Some [1, 0]),
      example_track ''t2'' ''Hurt'' ''Johnny Cash'' None]
     (Some ''t1'') None None 5 ''combined'' = Inl ValueError"
  by (simp add: get_recommendations_def find_track_def truthy_def embedding_column_def
      vstack_def)

theorem get_recommendations_missing_vector_witness:
  "find_track example_runtime default_config
     [example_track ''t1'' ''Yellow'' ''Coldplay'' (Some [1]),
      example_track ''t2'' ''Hurt'' ''Johnny Cash'' None]
     (Some ''t1'') None None = Some [example_track ''t1'' ''Yellow'' ''Coldplay'' (Some [1])] \<and>
   embedding_column ''text'' = Some text_embedding \<and>
   text_embedding (example_track ''t2'' ''Hurt'' ''Johnny Cash'' None) = None \<and>
   get_recommendations example_runtime Dot default_config
     [example_track ''t1'' ''Yellow'' ''Coldplay'' (Some [1]),
      example_track ''t2'' ''Hurt'' ''Johnny Cash'' None]
     (Some ''t1'') None None 5 ''text'' = Inl TypeError"
proof -
  let ?df = "[example_track ''t1'' ''Yellow'' ''Coldplay'' (Some [1]),
              example_track ''t2'' ''Hurt'' ''Johnny Cash'' None]"
  have f: "find_track example_runtime default_config ?df (Some ''t1'') None None
      = Some [example_track ''t1'' ''Yellow'' ''Coldplay'' (Some [1])]"
    by (simp add: find_track_def truthy_def)
  have c: "embedding_column ''text'' = Some text_embedding"
    by (simp add: embedding_column_def)
  have h: "text_embedding (hd [example_track ''t1'' ''Yellow'' ''Coldplay'' (Some [1])]) = None \<or>
      (\<exists>r\<in>set ?df. text_embedding r = None)"
    by simp
  from get_recommendations_missing_vector [OF f c h, of Dot 5] obtain e where
    "get_recommendations example_runtime Dot default_config ?df (Some ''t1'') None None 5
       ''text'' = Inl e"
    by blast
  moreover have "get_recommendations example_runtime Dot default_config ?df (Some ''t1'') None
      None 5 ''text'' = Inl TypeError"
    by (simp add: get_recommendations_def f c vstack_def find_similar_cells_def)
  ultimately show ?thesis
    using f c by simp
qed

section \<open>Properties of the feature generator\<close>

lemma fillna_observed:
  assumes "median col = Some m"
  shows "fillna (median col) col = map (\<lambda>c. case c of None \<Rightarrow> Some m | Some x \<Rightarrow> Some x) col \<and>
         None \<notin> set (fillna (median col) col)"
  using assms by (auto simp add: fillna_def split: option.splits)

text \<open>
  Claim C6 at a failing input: a frame of three rows whose first column is entirely
  missing. Its median is \<^verbatim>\<open>NaN\<close>, filling with \<^verbatim>\<open>NaN\<close> changes nothing, and the column
  reaches the scaler still missing (it is not filled with 0). The second column shows the
  ordinary case: its missing cell receives the median of the observed cells.
\<close>

theorem handle_missing_values_all_missing:
  "handle_missing_values [[None, None, None], [Some 1, None, Some 3]]
     = [[None, None, None], [Some 1, Some 2, Some 3]]"
  by (simp add: handle_missing_values_def fillna_def median_def observed_def)

end
